theory Spec2Isabelle
  imports Main
begin

section \<open>The outside world of the two scripts\<close>

text \<open>
  Both scripts (\<^verbatim>\<open>qrscanner.py\<close>, \<^verbatim>\<open>qrmaker.py\<close>) are glue around library calls:
  OpenCV's capture stream, pyzbar, pyqrcode, PIL, \<^verbatim>\<open>shutil\<close>/\<^verbatim>\<open>os\<close> and
  \<^verbatim>\<open>win32clipboard\<close>. A Python exception is a value named by its class; every library
  call the code makes is recorded, in order, as an event of a trace, whether it succeeds
  or raises. \<open>EvStreamRelease\<close> stands for \<^verbatim>\<open>VideoCapture.release()\<close>, the call that closes
  a capture stream.
\<close>

datatype pyexc = PyExc string

datatype ImageType = PNG | SVG

text \<open>
  The values that reach \<^verbatim>\<open>QRFile.export\<close> as \<^verbatim>\<open>data\<close>: a text, or the object returned
  by calling a function decorated with \<^verbatim>\<open>@contextmanager\<close> (its generator body has not
  started to run).
\<close>

datatype pyval = PyStr string | PyContextManager

datatype event =
    EvVideoCapture int
  | EvStreamRead
  | EvStreamRelease
  | EvOpenClipboard
  | EvEmptyClipboard
  | EvSetClipboardText string
  | EvGetClipboardData
  | EvCloseClipboard
  | EvFileOpen string
  | EvFileWrite string
  | EvFileClose
  | EvCreate pyval ImageType string nat
  | EvImageOpen string
  | EvImageShow string
  | EvMove string string
  | EvRemove string

text \<open>
  The state of the world: the trace of calls made so far, the text held by the OS
  clipboard, the position of the camera in its stream of frames, and the file system
  (regular files only, a path mapped to its content).
\<close>

record world =
  trace :: "event list"
  clip :: string
  frame_no :: nat
  fs :: "string \<rightharpoonup> string"

text \<open>
  What the libraries answer. \<open>fails ev\<close> is the exception the call \<open>ev\<close> raises, if any;
  \<open>stream_read n\<close> is what the \<open>n\<close>-th \<^verbatim>\<open>stream.read()\<close> returns (the success flag and the
  frame, \<^verbatim>\<open>None\<close> when no frame is available); \<open>pyzbar_decode\<close> and \<open>utf8_decode\<close> are
  \<^verbatim>\<open>pyzbar.decode\<close> and \<^verbatim>\<open>bytes.decode("utf-8")\<close>; \<open>create_qr d m k\<close> is the image
  that the method named \<open>m\<close> of \<^verbatim>\<open>create(d)\<close> renders at scale \<open>k\<close>, or the exception
  raised on the way; \<open>shutil_move files src dst\<close> is what \<^verbatim>\<open>shutil.move(src, dst)\<close> does
  to the files (the files after the move, or the exception it raises: how it treats two
  spellings of one path, or a directory at the destination, is the library's business);
  \<open>TMP\<close> is the value of the class attribute \<^verbatim>\<open>QRFile.TMP\<close>, computed once when the class
  body runs; \<open>downloads\<close> is the value of \<^verbatim>\<open>path.join(Path.home(), "Downloads")\<close>.
\<close>

record ('f, 'b) env =
  fails :: "event \<Rightarrow> pyexc option"
  stream_read :: "nat \<Rightarrow> bool \<times> 'f option"
  pyzbar_decode :: "'f option \<Rightarrow> pyexc + 'b list"
  utf8_decode :: "'b \<Rightarrow> pyexc + string"
  create_qr :: "pyval \<Rightarrow> string \<Rightarrow> nat \<Rightarrow> pyexc + string"
  shutil_move :: "(string \<rightharpoonup> string) \<Rightarrow> string \<Rightarrow> string \<Rightarrow> pyexc + (string \<rightharpoonup> string)"
  TMP :: string
  downloads :: string

type_synonym 'a io = "world \<Rightarrow> (pyexc + 'a) \<times> world"

definition return_io :: "'a \<Rightarrow> 'a io" where
  "return_io a w = (Inr a, w)"

definition raise_io :: "pyexc \<Rightarrow> 'a io" where
  "raise_io e w = (Inl e, w)"

text \<open>Sequencing: an exception of the first statement skips everything after it.\<close>

definition bind_io :: "'a io \<Rightarrow> ('a \<Rightarrow> 'b io) \<Rightarrow> 'b io" where
  "bind_io m f w = (case m w of (Inl e, w') \<Rightarrow> (Inl e, w') | (Inr a, w') \<Rightarrow> f a w')"

definition then_io :: "'a io \<Rightarrow> 'b io \<Rightarrow> 'b io" where
  "then_io m n = bind_io m (\<lambda>_. n)"

definition log :: "event \<Rightarrow> world \<Rightarrow> world" where
  "log ev w = w\<lparr>trace := trace w @ [ev]\<rparr>"

text \<open>A library call: it is logged, then raises or returns as the library decides.\<close>

definition call :: "('f, 'b) env \<Rightarrow> event \<Rightarrow> unit io" where
  "call E ev w = (case fails E ev of Some e \<Rightarrow> (Inl e, log ev w) | None \<Rightarrow> (Inr (), log ev w))"

text \<open>Python truthiness of an optional text: \<^verbatim>\<open>None\<close> and \<^verbatim>\<open>""\<close> are false.\<close>

fun truthy :: "string option \<Rightarrow> bool" where
  "truthy None = False"
| "truthy (Some s) = (s \<noteq> [])"

subsection \<open>The clipboard calls of \<^verbatim>\<open>win32clipboard\<close>\<close>

definition OpenClipboard :: "('f, 'b) env \<Rightarrow> unit io" where
  "OpenClipboard E = call E EvOpenClipboard"

definition EmptyClipboard :: "('f, 'b) env \<Rightarrow> unit io" where
  "EmptyClipboard E = bind_io (call E EvEmptyClipboard) (\<lambda>_ w. (Inr (), w\<lparr>clip := []\<rparr>))"

definition SetClipboardText :: "('f, 'b) env \<Rightarrow> string \<Rightarrow> unit io" where
  "SetClipboardText E d = bind_io (call E (EvSetClipboardText d)) (\<lambda>_ w. (Inr (), w\<lparr>clip := d\<rparr>))"

definition GetClipboardData :: "('f, 'b) env \<Rightarrow> string io" where
  "GetClipboardData E = bind_io (call E EvGetClipboardData) (\<lambda>_ w. (Inr (clip w), w))"

definition CloseClipboard :: "('f, 'b) env \<Rightarrow> unit io" where
  "CloseClipboard E = call E EvCloseClipboard"

section \<open>qrscanner.py\<close>

text \<open>
  The classes of both files, the names each class body defines, and Python's method
  resolution order. A name that no class of the order defines, and that is not among the
  attributes assigned on the instance so far, raises \<^verbatim>\<open>AttributeError\<close> when it is looked
  up on \<^verbatim>\<open>self\<close>.
\<close>

datatype cls = WebcamCapture | ZbarWebcam | WindowsClipboard | WindowsQrScanner
  | QRFile | WindowsQRFile

fun own_names :: "cls \<Rightarrow> string list" where
  "own_names WebcamCapture = [''__init__'', ''set_data'', ''write_to_file'']"
| "own_names ZbarWebcam = [''set_capture_device'', ''capture_data'']"
| "own_names WindowsClipboard = [''set_clipboard'']"
| "own_names WindowsQrScanner = [''__init__'', ''set_clipboard'']"
| "own_names QRFile = [''TMP'', ''export'', ''make_qrcode'', ''open_file'', ''cleanup_file_data'']"
| "own_names WindowsQRFile = [''make_qrcode_from_clipboard'', ''clipboard'']"

fun mro :: "cls \<Rightarrow> cls list" where
  "mro WebcamCapture = [WebcamCapture]"
| "mro ZbarWebcam = [ZbarWebcam, WebcamCapture]"
| "mro WindowsClipboard = [WindowsClipboard]"
| "mro WindowsQrScanner = [WindowsQrScanner, ZbarWebcam, WebcamCapture, WindowsClipboard]"
| "mro QRFile = [QRFile]"
| "mro WindowsQRFile = [WindowsQRFile, QRFile]"

definition has_attr :: "cls \<Rightarrow> string list \<Rightarrow> string \<Rightarrow> bool" where
  "has_attr c assigned n = (n \<in> set assigned \<or> (\<exists>k \<in> set (mro c). n \<in> set (own_names k)))"

definition AttributeError :: "string \<Rightarrow> pyexc" where
  "AttributeError n = PyExc ''AttributeError''"

text \<open>
  \<^verbatim>\<open>self.<n>\<close> on an instance of class \<open>c\<close> on which the attributes \<open>assigned\<close> have been
  assigned.
\<close>

definition getattr_self :: "cls \<Rightarrow> string list \<Rightarrow> string \<Rightarrow> unit io" where
  "getattr_self c assigned n =
     (if has_attr c assigned n then return_io () else raise_io (AttributeError n))"

text \<open>The instance attributes of a scanner; \<open>data\<close> is unset until a capture assigns it.\<close>

record scanner =
  capture_device :: int
  filepath :: string
  data :: "string option"

text \<open>
  The names assigned on a scanner: a record of the model is a scanner after
  \<^verbatim>\<open>set_capture_device\<close> and \<^verbatim>\<open>WebcamCapture.__init__\<close> have run.
\<close>

definition scanner_names :: "scanner \<Rightarrow> string list" where
  "scanner_names self =
     [''capture_device'', ''filepath''] @ (case data self of None \<Rightarrow> [] | Some d \<Rightarrow> [''data''])"

text \<open>
  \<^verbatim>\<open>WebcamCapture.write_to_file\<close>: a \<^verbatim>\<open>with open(self.filepath, "w+")\<close> block (the
  mode creates the file or empties it) whose body writes every element of \<^verbatim>\<open>self.data\<close>
  (the characters of the text). The \<^verbatim>\<open>with\<close> statement closes the file also when its
  body raises.
\<close>

fun write_lines :: "('f, 'b) env \<Rightarrow> string \<Rightarrow> string \<Rightarrow> unit io" where
  "write_lines E p [] = return_io ()"
| "write_lines E p (c # cs) =
     bind_io (call E (EvFileWrite [c]))
       (\<lambda>_ w. write_lines E p cs (w\<lparr>fs := (fs w)(p \<mapsto> (case fs w p of None \<Rightarrow> [] | Some t \<Rightarrow> t) @ [c])\<rparr>))"

definition write_to_file :: "('f, 'b) env \<Rightarrow> scanner \<Rightarrow> unit io" where
  "write_to_file E self =
     bind_io (call E (EvFileOpen (filepath self)))
       (\<lambda>_ w. case (case data self of
                        None \<Rightarrow> raise_io (AttributeError ''data'')
                      | Some d \<Rightarrow> write_lines E (filepath self) d)
                     (w\<lparr>fs := (fs w)(filepath self \<mapsto> [])\<rparr>) of
                 (Inl e, w1) \<Rightarrow> (Inl e, log EvFileClose w1)
               | (Inr u, w1) \<Rightarrow> call E EvFileClose w1)"

text \<open>\<^verbatim>\<open>stream.read()\<close>: the camera hands out its next result.\<close>

definition stream_read_call :: "('f, 'b) env \<Rightarrow> (bool \<times> 'f option) io" where
  "stream_read_call E =
     bind_io (call E EvStreamRead)
       (\<lambda>_ w. (Inr (stream_read E (frame_no w)), w\<lparr>frame_no := Suc (frame_no w)\<rparr>))"

text \<open>The comprehension \<^verbatim>\<open>[o.data.decode("utf-8") for o in ...]\<close>.\<close>

fun decode_each :: "('b \<Rightarrow> pyexc + string) \<Rightarrow> 'b list \<Rightarrow> pyexc + string list" where
  "decode_each u [] = Inr []"
| "decode_each u (b # bs) =
     (case u b of
        Inl e \<Rightarrow> Inl e
      | Inr s \<Rightarrow> (case decode_each u bs of Inl e \<Rightarrow> Inl e | Inr ss \<Rightarrow> Inr (s # ss)))"

definition decode_frame :: "('f, 'b) env \<Rightarrow> 'f option \<Rightarrow> pyexc + string list" where
  "decode_frame E frame =
     (case pyzbar_decode E frame of Inl e \<Rightarrow> Inl e | Inr os \<Rightarrow> decode_each (utf8_decode E) os)"

text \<open>
  The loop of \<^verbatim>\<open>ZbarWebcam.capture_data\<close>, \<^verbatim>\<open>while not len(obj)\<close>: the flag returned by
  \<^verbatim>\<open>stream.read()\<close> is bound to \<^verbatim>\<open>_\<close> and the frame goes to the decoder as it is. The
  loop may run forever: \<open>None\<close> is the run that never returns.
\<close>

partial_function (option) capture_loop ::
  "('f, 'b) env \<Rightarrow> string list \<Rightarrow> world \<Rightarrow> ((pyexc + string list) \<times> world) option" where
  "capture_loop E obj w =
     (if \<not> (length obj \<noteq> 0) then
        (case stream_read_call E w of
           (Inl e, w1) \<Rightarrow> Some (Inl e, w1)
         | (Inr r, w1) \<Rightarrow>
             (case decode_frame E (snd r) of
                Inl e \<Rightarrow> Some (Inl e, w1)
              | Inr obj1 \<Rightarrow> capture_loop E obj1 w1))
      else Some (Inr obj, w))"

text \<open>\<^verbatim>\<open>obj[0]\<close>.\<close>

fun index0 :: "string list \<Rightarrow> pyexc + string" where
  "index0 [] = Inl (PyExc ''IndexError'')"
| "index0 (x # xs) = Inr x"

definition capture_data ::
  "('f, 'b) env \<Rightarrow> scanner \<Rightarrow> world \<Rightarrow> ((pyexc + scanner) \<times> world) option" where
  "capture_data E self w =
     (case call E (EvVideoCapture (capture_device self)) w of
        (Inl e, w0) \<Rightarrow> Some (Inl e, w0)
      | (Inr u, w0) \<Rightarrow>
          (case capture_loop E [] w0 of
             None \<Rightarrow> None
           | Some (Inl e, w1) \<Rightarrow> Some (Inl e, w1)
           | Some (Inr obj, w1) \<Rightarrow>
               (case index0 obj of
                  Inl e \<Rightarrow> Some (Inl e, w1)
                | Inr d \<Rightarrow> Some (Inr (self\<lparr>data := Some d\<rparr>), w1))))"

text \<open>\<^verbatim>\<open>WindowsClipboard.set_clipboard(self, data)\<close>: four calls in a row.\<close>

definition set_clipboard :: "('f, 'b) env \<Rightarrow> string \<Rightarrow> unit io" where
  "set_clipboard E d =
     then_io (OpenClipboard E)
       (then_io (EmptyClipboard E)
          (then_io (SetClipboardText E d) (CloseClipboard E)))"

text \<open>
  \<^verbatim>\<open>WindowsQrScanner.__init__(capture_device, filepath)\<close>: the two attribute assignments,
  the capture, and then, when the captured text is truthy, the statement
  \<^verbatim>\<open>self.set_data_to_clipboard(self.data)\<close>, whose first step is the lookup of that name
  on \<^verbatim>\<open>self\<close>. No class of the file defines a method of that name, so nothing follows the
  lookup.
\<close>

definition WindowsQrScanner_init ::
  "('f, 'b) env \<Rightarrow> int \<Rightarrow> string option \<Rightarrow> world \<Rightarrow> ((pyexc + scanner) \<times> world) option" where
  "WindowsQrScanner_init E dev path w =
     (let self = \<lparr>capture_device = dev,
                 filepath = (if truthy path then the path else downloads E),
                 data = None\<rparr>
      in case capture_data E self w of
           None \<Rightarrow> None
         | Some (Inl e, w1) \<Rightarrow> Some (Inl e, w1)
         | Some (Inr self1, w1) \<Rightarrow>
             (if truthy (data self1) then
                (case getattr_self WindowsQrScanner (scanner_names self1) ''set_data_to_clipboard'' w1 of
                   (Inl e, w2) \<Rightarrow> Some (Inl e, w2)
                 | (Inr u, w2) \<Rightarrow> Some (Inr self1, w2))
              else Some (Inr self1, w1)))"

section \<open>qrmaker.py\<close>

definition ImageType_value :: "ImageType \<Rightarrow> string" where
  "ImageType_value t = (case t of PNG \<Rightarrow> ''png'' | SVG \<Rightarrow> ''svg'')"

definition FileNotFoundError :: pyexc where
  "FileNotFoundError = PyExc ''FileNotFoundError''"

text \<open>
  \<^verbatim>\<open>QRFile.export(data, img_type)\<close>: the image rendered from \<^verbatim>\<open>data\<close> by the method
  that \<^verbatim>\<open>img_type.value\<close> names is written to \<^verbatim>\<open>self.TMP\<close> with \<^verbatim>\<open>scale=8\<close>.
\<close>

definition export :: "('f, 'b) env \<Rightarrow> pyval \<Rightarrow> ImageType \<Rightarrow> unit io" where
  "export E d t w =
     (case create_qr E d (ImageType_value t) 8 of
        Inl e \<Rightarrow> (Inl e, log (EvCreate d t (TMP E) 8) w)
      | Inr img \<Rightarrow> (Inr (), (log (EvCreate d t (TMP E) 8) w)\<lparr>fs := (fs w)(TMP E \<mapsto> img)\<rparr>))"

text \<open>
  \<^verbatim>\<open>QRFile.open_file\<close>: \<^verbatim>\<open>Image.open(self.TMP).show()\<close>. \<^verbatim>\<open>Image.open\<close> raises
  \<^verbatim>\<open>FileNotFoundError\<close> when there is no file, and may raise on a file it finds (one it
  cannot identify as an image); \<^verbatim>\<open>show\<close> is called on what it returns.
\<close>

definition open_file :: "('f, 'b) env \<Rightarrow> unit io" where
  "open_file E w =
     (case fs w (TMP E) of
        None \<Rightarrow> (Inl FileNotFoundError, log (EvImageOpen (TMP E)) w)
      | Some img \<Rightarrow> then_io (call E (EvImageOpen (TMP E))) (call E (EvImageShow (TMP E))) w)"

text \<open>
  \<^verbatim>\<open>shutil.move\<close>, as the library decides, and \<^verbatim>\<open>os.remove\<close> at the path a file was
  written at: it raises \<^verbatim>\<open>FileNotFoundError\<close> when there is no file, and may raise on a
  file it finds (one that is in use, or protected).
\<close>

definition move :: "('f, 'b) env \<Rightarrow> string \<Rightarrow> string \<Rightarrow> unit io" where
  "move E src dst w =
     (case shutil_move E (fs w) src dst of
        Inl e \<Rightarrow> (Inl e, log (EvMove src dst) w)
      | Inr files \<Rightarrow> (Inr (), (log (EvMove src dst) w)\<lparr>fs := files\<rparr>))"

definition remove :: "('f, 'b) env \<Rightarrow> string \<Rightarrow> unit io" where
  "remove E p w =
     (case fs w p of
        None \<Rightarrow> (Inl FileNotFoundError, log (EvRemove p) w)
      | Some c \<Rightarrow>
          (case fails E (EvRemove p) of
             Some e \<Rightarrow> (Inl e, log (EvRemove p) w)
           | None \<Rightarrow> (Inr (), (log (EvRemove p) w)\<lparr>fs := (fs w)(p := None)\<rparr>)))"

text \<open>
  \<^verbatim>\<open>QRFile.cleanup_file_data(save_to=None)\<close>:
  \<^verbatim>\<open>move(self.TMP, save_to) if save_to else remove(self.TMP)\<close>.
\<close>

definition cleanup_file_data :: "('f, 'b) env \<Rightarrow> string option \<Rightarrow> unit io" where
  "cleanup_file_data E save_to =
     (if truthy save_to then move E (TMP E) (the save_to) else remove E (TMP E))"

text \<open>
  \<^verbatim>\<open>WindowsQRFile.clipboard\<close> is a generator function under \<^verbatim>\<open>@contextmanager\<close>: calling it
  runs none of its body and returns a context manager. Entering that manager runs the body
  up to the \<^verbatim>\<open>yield\<close>; leaving it without an exception resumes the body after the
  \<^verbatim>\<open>yield\<close>; leaving it with an exception raises that exception at the \<^verbatim>\<open>yield\<close>, which
  the body does not catch, so the statement after the \<^verbatim>\<open>yield\<close> is skipped.
\<close>

definition clipboard :: pyval where
  "clipboard = PyContextManager"

definition clipboard_enter :: "('f, 'b) env \<Rightarrow> string io" where
  "clipboard_enter E = then_io (OpenClipboard E) (GetClipboardData E)"

definition clipboard_exit :: "('f, 'b) env \<Rightarrow> pyexc option \<Rightarrow> unit io" where
  "clipboard_exit E exc = (case exc of None \<Rightarrow> CloseClipboard E | Some e \<Rightarrow> raise_io e)"

text \<open>\<^verbatim>\<open>with self.clipboard() as text: body(text)\<close>, the way a caller reads the clipboard.\<close>

definition with_clipboard :: "('f, 'b) env \<Rightarrow> (string \<Rightarrow> 'a io) \<Rightarrow> 'a io" where
  "with_clipboard E body =
     bind_io (clipboard_enter E)
       (\<lambda>text w. case body text w of
                   (Inl e, w1) \<Rightarrow> (case clipboard_exit E (Some e) w1 of (r, w2) \<Rightarrow> (Inl e, w2))
                 | (Inr a, w1) \<Rightarrow>
                     (case clipboard_exit E None w1 of
                        (Inl e, w2) \<Rightarrow> (Inl e, w2)
                      | (Inr u, w2) \<Rightarrow> (Inr a, w2)))"

text \<open>
  \<^verbatim>\<open>WindowsQRFile.make_qrcode_from_clipboard\<close>: \<^verbatim>\<open>self.export(self.clipboard())\<close>, then
  \<^verbatim>\<open>self.open_file()\<close>, then \<^verbatim>\<open>self.cleanup()\<close>, which starts with the lookup of the name
  \<^verbatim>\<open>cleanup\<close> on \<^verbatim>\<open>self\<close>, an instance on which nothing has been assigned.
\<close>

definition make_qrcode_from_clipboard :: "('f, 'b) env \<Rightarrow> unit io" where
  "make_qrcode_from_clipboard E =
     then_io (export E clipboard PNG)
       (then_io (open_file E) (getattr_self WindowsQRFile [] ''cleanup''))"

section \<open>Observations on traces\<close>

text \<open>The finalize calls (commit by move, discard by remove) and the staging paths of a trace.\<close>

fun is_finalize :: "event \<Rightarrow> bool" where
  "is_finalize (EvMove src dst) = True"
| "is_finalize (EvRemove p) = True"
| "is_finalize ev = False"

definition finalizes :: "event list \<Rightarrow> nat" where
  "finalizes tr = length (filter is_finalize tr)"

fun staging_paths :: "event list \<Rightarrow> string list" where
  "staging_paths [] = []"
| "staging_paths (EvCreate d t p k # evs) = p # staging_paths evs"
| "staging_paths (ev # evs) = staging_paths evs"

fun is_clipboard_call :: "event \<Rightarrow> bool" where
  "is_clipboard_call EvOpenClipboard = True"
| "is_clipboard_call EvEmptyClipboard = True"
| "is_clipboard_call (EvSetClipboardText d) = True"
| "is_clipboard_call EvGetClipboardData = True"
| "is_clipboard_call EvCloseClipboard = True"
| "is_clipboard_call ev = False"

fun is_file_call :: "event \<Rightarrow> bool" where
  "is_file_call (EvFileOpen p) = True"
| "is_file_call (EvFileWrite s) = True"
| "is_file_call EvFileClose = True"
| "is_file_call ev = False"

section \<open>Concrete worlds\<close>

definition world0 :: world where
  "world0 = \<lparr>trace = [], clip = ''hello'', frame_no = 0, fs = Map.empty\<rparr>"

definition no_failure :: "event \<Rightarrow> pyexc option" where
  "no_failure ev = None"

text \<open>
  A camera whose first two frames show no symbol and whose third shows one symbol
  carrying \<open>''XYZ123''\<close>; frames are numbered, the decoder knows what each shows.
\<close>

definition read_numbered :: "nat \<Rightarrow> bool \<times> nat option" where
  "read_numbered n = (True, Some n)"

definition decode_xyz :: "nat option \<Rightarrow> pyexc + string list" where
  "decode_xyz f = (if f = Some 2 then Inr [''XYZ123''] else Inr [])"

text \<open>
  An encoder for the short texts of the examples: it renders a text (the image names the
  method and the text) and raises \<^verbatim>\<open>AttributeError\<close> on an object that is not a text, as
  \<^verbatim>\<open>pyqrcode.create\<close> does on a context manager.
\<close>

definition render_text :: "pyval \<Rightarrow> string \<Rightarrow> nat \<Rightarrow> pyexc + string" where
  "render_text d m k =
     (case d of
        PyStr s \<Rightarrow> Inr (m @ '':'' @ s)
      | PyContextManager \<Rightarrow> Inl (PyExc ''AttributeError''))"

text \<open>
  \<^verbatim>\<open>shutil.move\<close> between two file names of one directory that holds regular files only,
  each file known by one name.
\<close>

definition move_plain ::
  "(string \<rightharpoonup> string) \<Rightarrow> string \<Rightarrow> string \<Rightarrow> pyexc + (string \<rightharpoonup> string)" where
  "move_plain files src dst =
     (case files src of
        None \<Rightarrow> Inl (PyExc ''FileNotFoundError'')
      | Some c \<Rightarrow> Inr ((files(src := None))(dst \<mapsto> c)))"

definition env_xyz :: "(nat, string) env" where
  "env_xyz = \<lparr>fails = no_failure,
              stream_read = read_numbered,
              pyzbar_decode = decode_xyz,
              utf8_decode = Inr,
              create_qr = render_text,
              shutil_move = move_plain,
              TMP = ''tmp'',
              downloads = ''Downloads''\<rparr>"

text \<open>The same camera, the third frame showing two symbols, \<open>''A''\<close> before \<open>''B''\<close>.\<close>

definition decode_ab :: "nat option \<Rightarrow> pyexc + string list" where
  "decode_ab f = (if f = Some 2 then Inr [''A'', ''B''] else Inr [])"

definition env_ab :: "(nat, string) env" where
  "env_ab = env_xyz\<lparr>pyzbar_decode := decode_ab\<rparr>"

text \<open>The same camera, the third frame showing a symbol whose text is empty.\<close>

definition decode_empty_text :: "nat option \<Rightarrow> pyexc + string list" where
  "decode_empty_text f = (if f = Some 2 then Inr [''''] else Inr [])"

definition env_empty_text :: "(nat, string) env" where
  "env_empty_text = env_xyz\<lparr>pyzbar_decode := decode_empty_text\<rparr>"

text \<open>
  A camera whose first read reports no frame (\<^verbatim>\<open>(False, None)\<close>), with a decoder that
  raises \<^verbatim>\<open>TypeError\<close> when it is handed \<^verbatim>\<open>None\<close>.
\<close>

definition read_unavailable_first :: "nat \<Rightarrow> bool \<times> nat option" where
  "read_unavailable_first n = (if n = 0 then (False, None) else (True, Some n))"

definition decode_strict :: "nat option \<Rightarrow> pyexc + string list" where
  "decode_strict f =
     (case f of
        None \<Rightarrow> Inl (PyExc ''TypeError'')
      | Some n \<Rightarrow> if n = 2 then Inr [''XYZ123''] else Inr [])"

definition env_unavailable :: "(nat, string) env" where
  "env_unavailable = env_xyz\<lparr>stream_read := read_unavailable_first, pyzbar_decode := decode_strict\<rparr>"

text \<open>The same first read, with a decoder that finds no symbol in \<^verbatim>\<open>None\<close>.\<close>

definition env_unavailable_lenient :: "(nat, string) env" where
  "env_unavailable_lenient = env_xyz\<lparr>stream_read := read_unavailable_first\<rparr>"

text \<open>
  A clipboard whose \<^verbatim>\<open>SetClipboardText\<close> raises, and one whose \<^verbatim>\<open>GetClipboardData\<close>
  raises.
\<close>

definition set_text_fails :: "event \<Rightarrow> pyexc option" where
  "set_text_fails ev = (if ev = EvSetClipboardText ''XYZ123'' then Some (PyExc ''error'') else None)"

definition env_set_fails :: "(nat, string) env" where
  "env_set_fails = env_xyz\<lparr>fails := set_text_fails\<rparr>"

definition get_data_fails :: "event \<Rightarrow> pyexc option" where
  "get_data_fails ev = (if ev = EvGetClipboardData then Some (PyExc ''error'') else None)"

definition env_get_fails :: "(nat, string) env" where
  "env_get_fails = env_xyz\<lparr>fails := get_data_fails\<rparr>"



definition scanner0 :: scanner where
  "scanner0 = \<lparr>capture_device = 0, filepath = ''Downloads'', data = None\<rparr>"

text \<open>A world in which an export has staged an image.\<close>

definition world_staged :: world where
  "world_staged = snd (export env_xyz (PyStr ''hello'') PNG world0)"

text \<open>The world after a scan that read three frames from device 0.\<close>

definition world_scanned :: world where
  "world_scanned = \<lparr>trace = [EvVideoCapture 0, EvStreamRead, EvStreamRead, EvStreamRead],
                      clip = ''hello'', frame_no = 3, fs = Map.empty\<rparr>"

section \<open>Facts about the model\<close>

subsection \<open>Library calls\<close>

lemma call_ok: "fails E ev = None \<Longrightarrow> call E ev w = (Inr (), log ev w)"
  by (simp add: call_def)

lemma call_raises: "fails E ev = Some e \<Longrightarrow> call E ev w = (Inl e, log ev w)"
  by (simp add: call_def)

lemma count_list_replicate:
  "count_list (replicate k a) b = (if a = b then k else 0)"
  by (induction k) auto

lemma has_no_set_data_to_clipboard:
  "\<not> has_attr WindowsQrScanner (scanner_names self) ''set_data_to_clipboard''"
  by (simp add: has_attr_def scanner_names_def split: option.splits)

lemma has_no_cleanup: "\<not> has_attr WindowsQRFile [] ''cleanup''"
  by (simp add: has_attr_def)

lemma getattr_set_data_to_clipboard:
  "getattr_self WindowsQrScanner (scanner_names self) ''set_data_to_clipboard'' w =
     (Inl (PyExc ''AttributeError''), w)"
  by (simp add: getattr_self_def has_no_set_data_to_clipboard raise_io_def AttributeError_def)

lemma getattr_cleanup:
  "getattr_self WindowsQRFile [] ''cleanup'' w = (Inl (PyExc ''AttributeError''), w)"
  by (simp add: getattr_self_def has_no_cleanup raise_io_def AttributeError_def)

subsection \<open>The capture loop\<close>

lemma stream_read_call_ok:
  "fails E EvStreamRead = None \<Longrightarrow>
     stream_read_call E w =
       (Inr (stream_read E (frame_no w)),
        w\<lparr>trace := trace w @ [EvStreamRead], frame_no := Suc (frame_no w)\<rparr>)"
  by (simp add: stream_read_call_def bind_io_def call_def log_def)

lemma stream_read_call_effect:
  "stream_read_call E w = (r, w1) \<Longrightarrow>
     trace w1 = trace w @ [EvStreamRead] \<and> fs w1 = fs w \<and> clip w1 = clip w"
  by (auto simp: stream_read_call_def bind_io_def call_def log_def split: option.splits)

text \<open>One pass over a frame in which the decoder finds nothing.\<close>

lemma capture_loop_retry:
  assumes "fails E EvStreamRead = None"
    and "decode_frame E (snd (stream_read E (frame_no w))) = Inr []"
  shows "capture_loop E [] w =
           capture_loop E [] (w\<lparr>trace := trace w @ [EvStreamRead], frame_no := Suc (frame_no w)\<rparr>)"
  using assms by (subst capture_loop.simps) (simp add: stream_read_call_ok)

text \<open>One pass over a frame on which the decoder raises.\<close>

lemma capture_loop_raise:
  assumes "fails E EvStreamRead = None"
    and "decode_frame E (snd (stream_read E (frame_no w))) = Inl e"
  shows "capture_loop E [] w =
           Some (Inl e, w\<lparr>trace := trace w @ [EvStreamRead], frame_no := Suc (frame_no w)\<rparr>)"
  using assms by (subst capture_loop.simps) (simp add: stream_read_call_ok)

text \<open>One pass over a frame in which the decoder finds something: the loop ends.\<close>

lemma capture_loop_found:
  assumes "fails E EvStreamRead = None"
    and "decode_frame E (snd (stream_read E (frame_no w))) = Inr (x # xs)"
  shows "capture_loop E [] w =
           Some (Inr (x # xs), w\<lparr>trace := trace w @ [EvStreamRead], frame_no := Suc (frame_no w)\<rparr>)"
proof -
  let ?w1 = "w\<lparr>trace := trace w @ [EvStreamRead], frame_no := Suc (frame_no w)\<rparr>"
  have "capture_loop E [] w = capture_loop E (x # xs) ?w1"
    using assms by (subst capture_loop.simps) (simp add: stream_read_call_ok)
  also have "\<dots> = Some (Inr (x # xs), ?w1)"
    by (subst capture_loop.simps) simp
  finally show ?thesis .
qed

text \<open>Any number of frames without a symbol are passed over.\<close>

lemma capture_loop_skip:
  assumes "fails E EvStreamRead = None"
    and "\<forall>i<n. decode_frame E (snd (stream_read E (frame_no w + i))) = Inr []"
  shows "capture_loop E [] w =
           capture_loop E []
             (w\<lparr>trace := trace w @ replicate n EvStreamRead, frame_no := frame_no w + n\<rparr>)"
  using assms
proof (induction n arbitrary: w)
  case 0
  then show ?case by simp
next
  case (Suc n)
  let ?w1 = "w\<lparr>trace := trace w @ [EvStreamRead], frame_no := Suc (frame_no w)\<rparr>"
  have first: "decode_frame E (snd (stream_read E (frame_no w))) = Inr []"
    using Suc.prems(2) by (metis add.right_neutral zero_less_Suc)
  have later: "\<forall>i<n. decode_frame E (snd (stream_read E (frame_no ?w1 + i))) = Inr []"
    using Suc.prems(2) by auto
  have "capture_loop E [] w = capture_loop E [] ?w1"
    by (rule capture_loop_retry [OF Suc.prems(1) first])
  also have "\<dots> = capture_loop E []
      (?w1\<lparr>trace := trace ?w1 @ replicate n EvStreamRead, frame_no := frame_no ?w1 + n\<rparr>)"
    by (rule Suc.IH [OF Suc.prems(1) later])
  finally show ?case by (simp add: replicate_app_Cons_same)
qed

lemma capture_loop_run:
  assumes rd: "fails E EvStreamRead = None"
    and skip: "\<forall>i<n. decode_frame E (snd (stream_read E (frame_no w + i))) = Inr []"
    and found: "decode_frame E (snd (stream_read E (frame_no w + n))) = Inr (x # xs)"
  shows "capture_loop E [] w =
           Some (Inr (x # xs),
                 w\<lparr>trace := trace w @ replicate (Suc n) EvStreamRead,
                   frame_no := frame_no w + Suc n\<rparr>)"
proof -
  let ?wn = "w\<lparr>trace := trace w @ replicate n EvStreamRead, frame_no := frame_no w + n\<rparr>"
  have "capture_loop E [] w = capture_loop E [] ?wn"
    by (rule capture_loop_skip [OF rd skip])
  also have "\<dots> = Some (Inr (x # xs),
      ?wn\<lparr>trace := trace ?wn @ [EvStreamRead], frame_no := Suc (frame_no ?wn)\<rparr>)"
    using found by (intro capture_loop_found [OF rd]) simp
  finally show ?thesis by (simp add: replicate_append_same)
qed

text \<open>Whatever a finished loop returns, all it did to the world was to read frames.\<close>

lemma capture_loop_effect:
  assumes "capture_loop E obj w = Some y"
  shows "(\<exists>k. trace (snd y) = trace w @ replicate k EvStreamRead)
           \<and> fs (snd y) = fs w \<and> clip (snd y) = clip w"
  using assms
proof (induction rule: capture_loop.raw_induct [rotated 1, consumes 1, case_names step])
  case (step loop E obj w y)
  show ?case
  proof (cases "obj = []")
    case False
    with step(2) show ?thesis by (auto intro: exI [of _ 0])
  next
    case True
    obtain r w1 where rd: "stream_read_call E w = (r, w1)"
      by (cases "stream_read_call E w")
    note eff = stream_read_call_effect [OF rd]
    show ?thesis
    proof (cases r)
      case (Inl e)
      with step(2) True rd have "y = (Inl e, w1)" by simp
      with eff show ?thesis by (auto intro: exI [of _ 1])
    next
      case (Inr fr)
      show ?thesis
      proof (cases "decode_frame E (snd fr)")
        case (Inl e)
        with step(2) True rd Inr have "y = (Inl e, w1)" by simp
        with eff show ?thesis by (auto intro: exI [of _ 1])
      next
        case (Inr obj1)
        with step(2) True rd \<open>r = Inr fr\<close> have "loop E obj1 w1 = Some y" by simp
        from step(1) [OF this] obtain k where
          k: "trace (snd y) = trace w1 @ replicate k EvStreamRead"
          and rest: "fs (snd y) = fs w1" "clip (snd y) = clip w1" by blast
        from k eff have "trace (snd y) = trace w @ replicate (Suc k) EvStreamRead" by simp
        with rest eff show ?thesis by metis
      qed
    qed
  qed
qed

subsection \<open>A capture and a whole scan\<close>

lemma capture_data_run:
  assumes "fails E (EvVideoCapture (capture_device self)) = None"
    and "fails E EvStreamRead = None"
    and "\<forall>i<n. decode_frame E (snd (stream_read E (frame_no w + i))) = Inr []"
    and "decode_frame E (snd (stream_read E (frame_no w + n))) = Inr (x # xs)"
  shows "capture_data E self w =
           Some (Inr (self\<lparr>data := Some x\<rparr>),
                 w\<lparr>trace := trace w @ EvVideoCapture (capture_device self) # replicate (Suc n) EvStreamRead,
                   frame_no := frame_no w + Suc n\<rparr>)"
proof -
  let ?w0 = "log (EvVideoCapture (capture_device self)) w"
  have "capture_loop E [] ?w0 =
          Some (Inr (x # xs),
                ?w0\<lparr>trace := trace ?w0 @ replicate (Suc n) EvStreamRead,
                    frame_no := frame_no ?w0 + Suc n\<rparr>)"
    using assms(3,4) by (intro capture_loop_run [OF assms(2)]) (simp_all add: log_def)
  then show ?thesis
    using assms(1) by (simp add: capture_data_def call_ok) (simp add: log_def)
qed

lemma capture_data_effect:
  assumes "capture_data E self w = Some (r, w')"
  shows "(\<exists>k. trace w' = trace w @ EvVideoCapture (capture_device self) # replicate k EvStreamRead)
           \<and> fs w' = fs w \<and> clip w' = clip w"
proof (cases "fails E (EvVideoCapture (capture_device self))")
  case (Some e)
  with assms have "w' = log (EvVideoCapture (capture_device self)) w"
    by (simp add: capture_data_def call_raises)
  then show ?thesis by (auto simp: log_def intro: exI [of _ 0])
next
  case None
  let ?w0 = "log (EvVideoCapture (capture_device self)) w"
  from assms None obtain y where y: "capture_loop E [] ?w0 = Some y" and w': "snd y = w'"
    by (auto simp: capture_data_def call_ok split: option.splits sum.splits)
  from capture_loop_effect [OF y] w' show ?thesis by (auto simp: log_def)
qed

lemma WindowsQrScanner_init_run:
  assumes "fails E (EvVideoCapture dev) = None"
    and "fails E EvStreamRead = None"
    and "\<forall>i<n. decode_frame E (snd (stream_read E (frame_no w + i))) = Inr []"
    and "decode_frame E (snd (stream_read E (frame_no w + n))) = Inr (x # xs)"
  shows "WindowsQrScanner_init E dev path w =
           Some (if x = [] then
                   Inr \<lparr>capture_device = dev,
                        filepath = (if truthy path then the path else downloads E),
                        data = Some x\<rparr>
                 else Inl (PyExc ''AttributeError''),
                 w\<lparr>trace := trace w @ EvVideoCapture dev # replicate (Suc n) EvStreamRead,
                   frame_no := frame_no w + Suc n\<rparr>)"
proof -
  let ?self = "\<lparr>capture_device = dev,
                filepath = (if truthy path then the path else downloads E),
                data = None\<rparr>"
  have "capture_data E ?self w =
          Some (Inr (?self\<lparr>data := Some x\<rparr>),
                w\<lparr>trace := trace w @ EvVideoCapture (capture_device ?self) # replicate (Suc n) EvStreamRead,
                  frame_no := frame_no w + Suc n\<rparr>)"
    using assms by (intro capture_data_run) simp_all
  then show ?thesis
    by (simp add: WindowsQrScanner_init_def getattr_set_data_to_clipboard)
qed

lemma WindowsQrScanner_init_effect:
  assumes "WindowsQrScanner_init E dev path w = Some (r, w')"
  shows "(\<exists>k. trace w' = trace w @ EvVideoCapture dev # replicate k EvStreamRead)
           \<and> fs w' = fs w \<and> clip w' = clip w"
proof -
  let ?self = "\<lparr>capture_device = dev,
                filepath = (if truthy path then the path else downloads E),
                data = None\<rparr>"
  from assms obtain r1 where "capture_data E ?self w = Some (r1, w')"
    by (auto simp: WindowsQrScanner_init_def Let_def getattr_set_data_to_clipboard
             split: option.splits sum.splits if_splits)
  from capture_data_effect [OF this] show ?thesis by simp
qed

subsection \<open>The two cameras of the examples\<close>

lemma frames_xyz:
  "decode_frame env_xyz (snd (stream_read env_xyz i)) = (if i = 2 then Inr [''XYZ123''] else Inr [])"
  by (simp add: decode_frame_def env_xyz_def read_numbered_def decode_xyz_def)

lemma frames_ab:
  "decode_frame env_ab (snd (stream_read env_ab i)) = (if i = 2 then Inr [''A'', ''B''] else Inr [])"
  by (simp add: decode_frame_def env_ab_def env_xyz_def read_numbered_def decode_ab_def)

lemma frames_empty_text:
  "decode_frame env_empty_text (snd (stream_read env_empty_text i)) =
     (if i = 2 then Inr [''''] else Inr [])"
  by (simp add: decode_frame_def env_empty_text_def env_xyz_def read_numbered_def
        decode_empty_text_def)

lemma replicate_3: "replicate (Suc 2) a = [a, a, a]" "replicate 3 a = [a, a, a]"
  by (simp_all add: numeral_2_eq_2 numeral_3_eq_3)


subsection \<open>The clipboard bracket\<close>

lemma set_clipboard_empty_raises:
  assumes "fails E EvOpenClipboard = None" and "fails E EvEmptyClipboard = Some e"
  shows "set_clipboard E d w =
           (Inl e, w\<lparr>trace := trace w @ [EvOpenClipboard, EvEmptyClipboard]\<rparr>)"
  using assms
  by (simp add: set_clipboard_def then_io_def bind_io_def OpenClipboard_def EmptyClipboard_def
        call_def log_def)

lemma set_clipboard_set_raises:
  assumes "fails E EvOpenClipboard = None" and "fails E EvEmptyClipboard = None"
    and "fails E (EvSetClipboardText d) = Some e"
  shows "set_clipboard E d w =
           (Inl e, w\<lparr>trace := trace w @ [EvOpenClipboard, EvEmptyClipboard, EvSetClipboardText d],
                      clip := []\<rparr>)"
  using assms
  by (simp add: set_clipboard_def then_io_def bind_io_def OpenClipboard_def EmptyClipboard_def
        SetClipboardText_def call_def log_def)

lemma set_clipboard_all_succeed:
  assumes "fails E EvOpenClipboard = None" and "fails E EvEmptyClipboard = None"
    and "fails E (EvSetClipboardText d) = None"
  shows "trace (snd (set_clipboard E d w)) =
           trace w @ [EvOpenClipboard, EvEmptyClipboard, EvSetClipboardText d, EvCloseClipboard]
         \<and> clip (snd (set_clipboard E d w)) = d"
  using assms
  by (simp add: set_clipboard_def then_io_def bind_io_def OpenClipboard_def EmptyClipboard_def
        SetClipboardText_def CloseClipboard_def call_def log_def split: option.splits)

lemma with_clipboard_get_raises:
  assumes "fails E EvOpenClipboard = None" and "fails E EvGetClipboardData = Some e"
  shows "with_clipboard E body w =
           (Inl e, w\<lparr>trace := trace w @ [EvOpenClipboard, EvGetClipboardData]\<rparr>)"
  using assms
  by (simp add: with_clipboard_def clipboard_enter_def then_io_def bind_io_def OpenClipboard_def
        GetClipboardData_def call_def log_def)

lemma with_clipboard_get_succeeds:
  assumes "fails E EvOpenClipboard = None" and "fails E EvGetClipboardData = None"
  shows "trace (snd (with_clipboard E return_io w)) =
           trace w @ [EvOpenClipboard, EvGetClipboardData, EvCloseClipboard]"
  using assms
  by (simp add: with_clipboard_def clipboard_enter_def clipboard_exit_def then_io_def bind_io_def
        OpenClipboard_def GetClipboardData_def CloseClipboard_def return_io_def call_def log_def
        split: option.splits)

subsection \<open>Writing the captured text to a file\<close>

lemma write_lines_ok:
  assumes "\<forall>c. fails E (EvFileWrite [c]) = None" and "fs w p = Some t"
  shows "fst (write_lines E p cs w) = Inr ()
         \<and> fs (snd (write_lines E p cs w)) = (fs w)(p \<mapsto> t @ cs)
         \<and> clip (snd (write_lines E p cs w)) = clip w"
  using assms
proof (induction cs arbitrary: w t)
  case Nil
  then show ?case by (auto simp: return_io_def)
next
  case (Cons c cs)
  let ?w1 = "(log (EvFileWrite [c]) w)\<lparr>fs := (fs (log (EvFileWrite [c]) w))(p \<mapsto> t @ [c])\<rparr>"
  have step: "write_lines E p (c # cs) w = write_lines E p cs ?w1"
    using Cons.prems by (simp add: bind_io_def call_def log_def)
  have "fs ?w1 p = Some (t @ [c])" by simp
  from Cons.IH [OF Cons.prems(1) this] show ?case
    unfolding step by (auto simp: log_def fun_eq_iff)
qed

subsection \<open>Staging and finalizing\<close>

lemma staging_paths_append:
  "staging_paths (xs @ ys) = staging_paths xs @ staging_paths ys"
  by (induction xs rule: staging_paths.induct) simp_all

lemma export_trace:
  "trace (snd (export E d t w)) = trace w @ [EvCreate d t (TMP E) 8]"
  by (simp add: export_def log_def split: sum.splits)

lemma export_renders:
  "create_qr E d (ImageType_value t) 8 = Inr img \<Longrightarrow>
     export E d t w = (Inr (), (log (EvCreate d t (TMP E) 8) w)\<lparr>fs := (fs w)(TMP E \<mapsto> img)\<rparr>)"
  by (simp add: export_def)

lemma open_file_effect:
  "open_file E w = (r, w1) \<Longrightarrow>
     fs w1 = fs w \<and> clip w1 = clip w
     \<and> (trace w1 = trace w @ [EvImageOpen (TMP E)]
        \<or> trace w1 = trace w @ [EvImageOpen (TMP E), EvImageShow (TMP E)])"
  by (auto simp: open_file_def then_io_def bind_io_def call_def log_def split: option.splits)

lemma discard_needs_file:
  "\<not> truthy s \<Longrightarrow> fs w (TMP E) = None \<Longrightarrow>
     fst (cleanup_file_data E s w) = Inl (PyExc ''FileNotFoundError'')"
  by (simp add: cleanup_file_data_def remove_def FileNotFoundError_def)

lemma discard_takes_file:
  "\<not> truthy s \<Longrightarrow> fst (cleanup_file_data E s w) = Inr () \<Longrightarrow>
     fs (snd (cleanup_file_data E s w)) (TMP E) = None"
  by (auto simp: cleanup_file_data_def remove_def split: option.splits)

lemma world_staged_eq:
  "world_staged = \<lparr>trace = [EvCreate (PyStr ''hello'') PNG ''tmp'' 8], clip = ''hello'',
                    frame_no = 0, fs = [''tmp'' \<mapsto> ''png:hello'']\<rparr>"
  by (simp add: world_staged_def export_def env_xyz_def render_text_def ImageType_value_def
        world0_def log_def)

lemma make_qrcode_run:
  "make_qrcode_from_clipboard env_xyz world0 =
     (Inl (PyExc ''AttributeError''),
      \<lparr>trace = [EvCreate PyContextManager PNG ''tmp'' 8], clip = ''hello'',
       frame_no = 0, fs = Map.empty\<rparr>)"
  by (simp add: make_qrcode_from_clipboard_def then_io_def bind_io_def export_def clipboard_def
        env_xyz_def render_text_def world0_def log_def)


lemma write_to_file_ok:
  assumes "data self = Some d"
    and "fails E (EvFileOpen (filepath self)) = None"
    and "\<forall>c. fails E (EvFileWrite [c]) = None"
    and "fails E EvFileClose = None"
  shows "fst (write_to_file E self w) = Inr ()
         \<and> fs (snd (write_to_file E self w)) = (fs w)(filepath self \<mapsto> d)"
proof -
  let ?p = "filepath self"
  let ?w1 = "(log (EvFileOpen ?p) w)\<lparr>fs := (fs (log (EvFileOpen ?p) w))(?p \<mapsto> [])\<rparr>"
  have "fs ?w1 ?p = Some []" by simp
  from write_lines_ok [OF assms(3) this, of d]
  obtain w2 where w2: "write_lines E ?p d ?w1 = (Inr (), w2)"
    and fs2: "fs w2 = (fs ?w1)(?p \<mapsto> d)"
    by (cases "write_lines E ?p d ?w1") auto
  have "write_to_file E self w = call E EvFileClose w2"
    using assms(1,2) w2 by (simp add: write_to_file_def bind_io_def call_ok)
  with assms(4) fs2 show ?thesis by (simp add: call_ok log_def)
qed

subsection \<open>The runs of the examples\<close>

lemma run_xyz:
  "WindowsQrScanner_init env_xyz 0 path world0 = Some (Inl (PyExc ''AttributeError''), world_scanned)"
proof -
  have "WindowsQrScanner_init env_xyz 0 path world0 =
          Some (if ''XYZ123'' = [] then
                  Inr \<lparr>capture_device = 0,
                       filepath = (if truthy path then the path else downloads env_xyz),
                       data = Some ''XYZ123''\<rparr>
                else Inl (PyExc ''AttributeError''),
                world0\<lparr>trace := trace world0 @ EvVideoCapture 0 # replicate (Suc 2) EvStreamRead,
                       frame_no := frame_no world0 + Suc 2\<rparr>)"
    by (rule WindowsQrScanner_init_run)
       (simp_all add: frames_xyz world0_def, simp_all add: env_xyz_def no_failure_def)
  then show ?thesis
    by (simp add: replicate_3 world0_def world_scanned_def)
qed

lemma run_empty_text:
  "WindowsQrScanner_init env_empty_text 0 None world0 =
     Some (Inr \<lparr>capture_device = 0, filepath = ''Downloads'', data = Some []\<rparr>, world_scanned)"
proof -
  have "WindowsQrScanner_init env_empty_text 0 None world0 =
          Some (if ([]::string) = [] then
                  Inr \<lparr>capture_device = 0,
                       filepath = (if truthy None then the None else downloads env_empty_text),
                       data = Some []\<rparr>
                else Inl (PyExc ''AttributeError''),
                world0\<lparr>trace := trace world0 @ EvVideoCapture 0 # replicate (Suc 2) EvStreamRead,
                       frame_no := frame_no world0 + Suc 2\<rparr>)"
    by (rule WindowsQrScanner_init_run)
       (simp_all add: frames_empty_text world0_def,
        simp_all add: env_empty_text_def env_xyz_def no_failure_def)
  then show ?thesis
    by (simp add: replicate_3 world0_def world_scanned_def env_empty_text_def env_xyz_def)
qed

section \<open>The claims\<close>

text \<open>
  C1, as the code has it. In \<^verbatim>\<open>WindowsClipboard.set_clipboard\<close> and in the context manager
  \<^verbatim>\<open>WindowsQRFile.clipboard\<close>, once the clipboard has been opened the close call is made
  only when every inner call succeeded: when \<^verbatim>\<open>EmptyClipboard\<close>, \<^verbatim>\<open>SetClipboardText\<close> or
  \<^verbatim>\<open>GetClipboardData\<close> raises, the exception propagates at once and the trace ends with
  the call that raised, with no \<^verbatim>\<open>CloseClipboard\<close> after it.
\<close>

theorem clipboard_close_only_after_success:
  assumes "fails E EvOpenClipboard = None"
  shows "(fails E EvEmptyClipboard = Some e \<longrightarrow>
            set_clipboard E d w =
              (Inl e, w\<lparr>trace := trace w @ [EvOpenClipboard, EvEmptyClipboard]\<rparr>))
       \<and> (fails E EvEmptyClipboard = None \<and> fails E (EvSetClipboardText d) = Some e \<longrightarrow>
            set_clipboard E d w =
              (Inl e, w\<lparr>trace := trace w @ [EvOpenClipboard, EvEmptyClipboard, EvSetClipboardText d],
                         clip := []\<rparr>))
       \<and> (fails E EvEmptyClipboard = None \<and> fails E (EvSetClipboardText d) = None \<longrightarrow>
            trace (snd (set_clipboard E d w)) =
              trace w @ [EvOpenClipboard, EvEmptyClipboard, EvSetClipboardText d, EvCloseClipboard])
       \<and> (fails E EvGetClipboardData = Some e \<longrightarrow>
            with_clipboard E body w =
              (Inl e, w\<lparr>trace := trace w @ [EvOpenClipboard, EvGetClipboardData]\<rparr>))
       \<and> (fails E EvGetClipboardData = None \<longrightarrow>
            trace (snd (with_clipboard E return_io w)) =
              trace w @ [EvOpenClipboard, EvGetClipboardData, EvCloseClipboard])"
  using assms set_clipboard_empty_raises set_clipboard_set_raises set_clipboard_all_succeed
    with_clipboard_get_raises with_clipboard_get_succeeds
  by blast

theorem clipboard_close_only_after_success_witness:
  "with_clipboard env_get_fails return_io world0 =
     (Inl (PyExc ''error''), world0\<lparr>trace := [EvOpenClipboard, EvGetClipboardData]\<rparr>)
   \<and> trace (snd (set_clipboard env_xyz ''XYZ123'' world0)) =
       [EvOpenClipboard, EvEmptyClipboard, EvSetClipboardText ''XYZ123'', EvCloseClipboard]"
  using clipboard_close_only_after_success
          [of env_get_fails "PyExc ''error''" "''XYZ123''" world0 return_io]
        clipboard_close_only_after_success
          [of env_xyz "PyExc ''error''" "''XYZ123''" world0 return_io]
  by (simp add: env_get_fails_def get_data_fails_def env_xyz_def no_failure_def world0_def)

text \<open>
  C1, as stated, fails: the clipboard is opened, \<^verbatim>\<open>SetClipboardText\<close> raises, and
  \<^verbatim>\<open>set_clipboard\<close> ends with that exception without having called \<^verbatim>\<open>CloseClipboard\<close>.
\<close>

theorem set_clipboard_skips_close:
  "fails env_set_fails EvOpenClipboard = None
   \<and> fst (set_clipboard env_set_fails ''XYZ123'' world0) = Inl (PyExc ''error'')
   \<and> trace (snd (set_clipboard env_set_fails ''XYZ123'' world0)) =
       [EvOpenClipboard, EvEmptyClipboard, EvSetClipboardText ''XYZ123'']
   \<and> EvCloseClipboard \<notin> set (trace (snd (set_clipboard env_set_fails ''XYZ123'' world0)))"
proof -
  have "set_clipboard env_set_fails ''XYZ123'' world0 =
          (Inl (PyExc ''error''),
           world0\<lparr>trace := trace world0 @ [EvOpenClipboard, EvEmptyClipboard, EvSetClipboardText ''XYZ123''],
                  clip := []\<rparr>)"
    by (rule set_clipboard_set_raises)
       (simp_all add: env_set_fails_def set_text_fails_def env_xyz_def)
  then show ?thesis
    by (simp add: world0_def env_set_fails_def set_text_fails_def env_xyz_def)
qed

text \<open>
  C2. When the decoder finds nothing in the next \<open>n\<close> frames and a non-empty list
  \<open>x # xs\<close> in the frame after them, \<^verbatim>\<open>capture_data\<close> returns, having read exactly those
  \<open>n + 1\<close> frames, and the captured text is \<open>x\<close>, the first element of that list, whatever
  follows it in the list.
\<close>

theorem capture_data_first_nonempty_frame:
  assumes "fails E (EvVideoCapture (capture_device self)) = None"
    and "fails E EvStreamRead = None"
    and "\<forall>i<n. decode_frame E (snd (stream_read E (frame_no w + i))) = Inr []"
    and "decode_frame E (snd (stream_read E (frame_no w + n))) = Inr (x # xs)"
  shows "capture_data E self w =
           Some (Inr (self\<lparr>data := Some x\<rparr>),
                 w\<lparr>trace := trace w @ EvVideoCapture (capture_device self) # replicate (Suc n) EvStreamRead,
                   frame_no := frame_no w + Suc n\<rparr>)"
  using assms by (rule capture_data_run)

theorem capture_data_first_nonempty_frame_witness:
  "capture_data env_ab scanner0 world0 =
     Some (Inr (scanner0\<lparr>data := Some ''A''\<rparr>),
           world0\<lparr>trace := [EvVideoCapture 0, EvStreamRead, EvStreamRead, EvStreamRead],
                  frame_no := 3\<rparr>)"
proof -
  have "capture_data env_ab scanner0 world0 =
          Some (Inr (scanner0\<lparr>data := Some ''A''\<rparr>),
                world0\<lparr>trace := trace world0 @ EvVideoCapture (capture_device scanner0)
                                   # replicate (Suc 2) EvStreamRead,
                       frame_no := frame_no world0 + Suc 2\<rparr>)"
    by (rule capture_data_first_nonempty_frame [where xs = "[''B'']"])
       (simp_all add: frames_ab world0_def, simp_all add: env_ab_def env_xyz_def no_failure_def)
  then show ?thesis
    by (simp add: replicate_3 world0_def scanner0_def)
qed

text \<open>
  C3, as the code has it. A scan that ends, with a result or with an exception, has
  opened the capture stream once and has never closed it: no release call is made.
\<close>

theorem scan_never_releases_camera:
  assumes "WindowsQrScanner_init E dev path w = Some (r, w')"
  shows "count_list (trace w') EvStreamRelease = count_list (trace w) EvStreamRelease
         \<and> count_list (trace w') (EvVideoCapture dev) = Suc (count_list (trace w) (EvVideoCapture dev))"
proof -
  from WindowsQrScanner_init_effect [OF assms] obtain k where
    "trace w' = trace w @ EvVideoCapture dev # replicate k EvStreamRead" by blast
  then show ?thesis by (simp add: count_list_replicate)
qed

theorem scan_never_releases_camera_witness:
  "count_list (trace world_scanned) EvStreamRelease = count_list (trace world0) EvStreamRelease
   \<and> count_list (trace world_scanned) (EvVideoCapture 0) = Suc (count_list (trace world0) (EvVideoCapture 0))"
  using scan_never_releases_camera [OF run_empty_text] .

text \<open>
  C3, as stated, fails: on the camera that shows \<open>''XYZ123''\<close> in its third frame the scan
  ends after three reads, and on the one that shows an empty text it returns normally;
  the trace of either run holds no release call.
\<close>

theorem scan_xyz_releases_nothing:
  "WindowsQrScanner_init env_xyz 0 None world0 = Some (Inl (PyExc ''AttributeError''), world_scanned)
   \<and> WindowsQrScanner_init env_empty_text 0 None world0 =
       Some (Inr \<lparr>capture_device = 0, filepath = ''Downloads'', data = Some []\<rparr>, world_scanned)
   \<and> trace world_scanned = [EvVideoCapture 0, EvStreamRead, EvStreamRead, EvStreamRead]
   \<and> count_list (trace world_scanned) EvStreamRelease = 0"
  using run_xyz [of None] run_empty_text by (simp add: world_scanned_def)

text \<open>
  C4, as the code has it. A scan that ends has made no file call and has left the file
  system as it was, whether or not a destination path was given. The captured text reaches
  a file only through a separate call of \<^verbatim>\<open>write_to_file\<close>, which, when the file calls
  succeed, leaves exactly that text as the content of the file at the object's path.
\<close>

theorem scan_writes_no_file:
  "(WindowsQrScanner_init E dev path w = Some (r, w') \<longrightarrow>
      fs w' = fs w \<and> filter is_file_call (trace w') = filter is_file_call (trace w))
   \<and> (data self = Some d \<and> fails E (EvFileOpen (filepath self)) = None
        \<and> (\<forall>c. fails E (EvFileWrite [c]) = None) \<and> fails E EvFileClose = None \<longrightarrow>
      fst (write_to_file E self v) = Inr ()
      \<and> fs (snd (write_to_file E self v)) = (fs v)(filepath self \<mapsto> d))"
proof (intro conjI impI)
  assume run: "WindowsQrScanner_init E dev path w = Some (r, w')"
  from WindowsQrScanner_init_effect [OF run] obtain k where
    k: "trace w' = trace w @ EvVideoCapture dev # replicate k EvStreamRead"
    and same: "fs w' = fs w" by blast
  show "fs w' = fs w" by (rule same)
  show "filter is_file_call (trace w') = filter is_file_call (trace w)"
    by (simp add: k)
next
  assume ok: "data self = Some d \<and> fails E (EvFileOpen (filepath self)) = None
        \<and> (\<forall>c. fails E (EvFileWrite [c]) = None) \<and> fails E EvFileClose = None"
  then have both: "fst (write_to_file E self v) = Inr ()
      \<and> fs (snd (write_to_file E self v)) = (fs v)(filepath self \<mapsto> d)"
    by (intro write_to_file_ok) simp_all
  from both show "fst (write_to_file E self v) = Inr ()" by simp
  from both show "fs (snd (write_to_file E self v)) = (fs v)(filepath self \<mapsto> d)" by simp
qed

theorem scan_writes_no_file_witness:
  "fs world_scanned = fs world0
   \<and> filter is_file_call (trace world_scanned) = filter is_file_call (trace world0)
   \<and> fst (write_to_file env_xyz (scanner0\<lparr>filepath := ''out.txt'', data := Some ''XYZ123''\<rparr>) world_scanned)
       = Inr ()
   \<and> fs (snd (write_to_file env_xyz (scanner0\<lparr>filepath := ''out.txt'', data := Some ''XYZ123''\<rparr>)
               world_scanned))
       = (fs world_scanned)(''out.txt'' \<mapsto> ''XYZ123'')"
  using scan_writes_no_file
          [of env_xyz 0 "Some ''out.txt''" world0 "Inl (PyExc ''AttributeError'')" world_scanned
              "scanner0\<lparr>filepath := ''out.txt'', data := Some ''XYZ123''\<rparr>" "''XYZ123''" world_scanned]
        run_xyz [of "Some ''out.txt''"]
  by (simp add: env_xyz_def no_failure_def)

text \<open>
  C4, as stated, fails: with the destination \<open>''out.txt''\<close> and the camera that shows
  \<open>''XYZ123''\<close>, the scan ends with the clipboard still holding its old text, no file at
  the destination, and neither a clipboard call nor a file call in its trace.
\<close>

theorem scan_xyz_publishes_nothing:
  "WindowsQrScanner_init env_xyz 0 (Some ''out.txt'') world0 =
     Some (Inl (PyExc ''AttributeError''), world_scanned)
   \<and> clip world_scanned = ''hello''
   \<and> fs world_scanned ''out.txt'' = None
   \<and> filter is_clipboard_call (trace world_scanned) = []
   \<and> filter is_file_call (trace world_scanned) = []"
  using run_xyz [of "Some ''out.txt''"] by (simp add: world_scanned_def)


text \<open>
  C5, as the code has it. When rendering the image or opening it in the viewer raises, the
  exception propagates out of \<^verbatim>\<open>make_qrcode_from_clipboard\<close> and the finalize step does
  not run: neither a move nor a remove is added to the trace, and the files are left as the
  export left them, so that an image the export has staged stays where it is.
\<close>

theorem no_finalize_when_export_or_viewer_fails:
  assumes "fst (export E clipboard PNG w) = Inl e
           \<or> (fst (export E clipboard PNG w) = Inr ()
              \<and> fst (open_file E (snd (export E clipboard PNG w))) = Inl e)"
  shows "fst (make_qrcode_from_clipboard E w) = Inl e
         \<and> finalizes (trace (snd (make_qrcode_from_clipboard E w))) = finalizes (trace w)
         \<and> fs (snd (make_qrcode_from_clipboard E w)) = fs (snd (export E clipboard PNG w))
         \<and> (\<forall>img. create_qr E clipboard (ImageType_value PNG) 8 = Inr img \<longrightarrow>
               fs (snd (make_qrcode_from_clipboard E w)) (TMP E) = Some img)"
proof -
  obtain r1 w1 where ex: "export E clipboard PNG w = (r1, w1)"
    by (cases "export E clipboard PNG w")
  have t1: "trace w1 = trace w @ [EvCreate clipboard PNG (TMP E) 8]"
    using export_trace [of E clipboard PNG w] ex by simp
  have staged: "\<forall>img. create_qr E clipboard (ImageType_value PNG) 8 = Inr img \<longrightarrow>
                  fs w1 (TMP E) = Some img"
    using ex by (auto simp: export_def)
  show ?thesis
  proof (cases r1)
    case (Inl e1)
    with assms ex have "e1 = e" by simp
    with Inl ex t1 staged show ?thesis
      by (simp add: make_qrcode_from_clipboard_def then_io_def bind_io_def finalizes_def)
  next
    case (Inr u)
    with assms ex have op: "fst (open_file E w1) = Inl e" by simp
    obtain w2 where o2: "open_file E w1 = (Inl e, w2)"
      using op by (cases "open_file E w1") simp
    from open_file_effect [OF o2] have same: "fs w2 = fs w1"
      and fin: "finalizes (trace w2) = finalizes (trace w1)"
      by (auto simp: finalizes_def)
    from Inr ex o2 have run: "make_qrcode_from_clipboard E w = (Inl e, w2)"
      by (simp add: make_qrcode_from_clipboard_def then_io_def bind_io_def)
    from t1 have "finalizes (trace w1) = finalizes (trace w)"
      by (simp add: finalizes_def)
    with run ex same fin staged show ?thesis by simp
  qed
qed

theorem no_finalize_when_export_or_viewer_fails_witness:
  "fst (make_qrcode_from_clipboard env_xyz world0) = Inl (PyExc ''AttributeError'')
   \<and> finalizes (trace (snd (make_qrcode_from_clipboard env_xyz world0))) = finalizes (trace world0)
   \<and> fs (snd (make_qrcode_from_clipboard env_xyz world0))
       = fs (snd (export env_xyz clipboard PNG world0))"
proof -
  have "fst (export env_xyz clipboard PNG world0) = Inl (PyExc ''AttributeError'')"
    by (simp add: export_def clipboard_def env_xyz_def render_text_def)
  then have "fst (export env_xyz clipboard PNG world0) = Inl (PyExc ''AttributeError'')
        \<or> (fst (export env_xyz clipboard PNG world0) = Inr ()
           \<and> fst (open_file env_xyz (snd (export env_xyz clipboard PNG world0)))
               = Inl (PyExc ''AttributeError''))" ..
  from no_finalize_when_export_or_viewer_fails [OF this] show ?thesis by simp
qed

text \<open>
  C5, as stated, fails: the run of the entry point ends with the exception the encoder
  raises on the object it is handed, after the one call that renders; no finalize call
  has been made.
\<close>

theorem failed_export_skips_cleanup:
  "fst (make_qrcode_from_clipboard env_xyz world0) = Inl (PyExc ''AttributeError'')
   \<and> trace (snd (make_qrcode_from_clipboard env_xyz world0))
       = [EvCreate PyContextManager PNG ''tmp'' 8]
   \<and> finalizes (trace (snd (make_qrcode_from_clipboard env_xyz world0))) = 0"
  by (simp add: make_qrcode_run finalizes_def)

text \<open>
  C6, as the code has it. The loop does not look at the flag of \<^verbatim>\<open>stream.read()\<close>: when
  the camera reports no frame (\<^verbatim>\<open>(False, None)\<close>), \<^verbatim>\<open>None\<close> is handed to the decoder. The
  loop goes on to the next read when the decoder returns an empty list for \<^verbatim>\<open>None\<close>; when
  the decoder raises on \<^verbatim>\<open>None\<close>, the scan ends with that exception.
\<close>

theorem unavailable_frame_goes_to_decoder:
  assumes "fails E EvStreamRead = None"
    and "stream_read E (frame_no w) = (False, None)"
  shows "(decode_frame E None = Inr [] \<longrightarrow>
            capture_loop E [] w =
              capture_loop E [] (w\<lparr>trace := trace w @ [EvStreamRead], frame_no := Suc (frame_no w)\<rparr>))
       \<and> (decode_frame E None = Inl e \<longrightarrow>
            capture_loop E [] w =
              Some (Inl e, w\<lparr>trace := trace w @ [EvStreamRead], frame_no := Suc (frame_no w)\<rparr>))"
proof (intro conjI impI)
  assume "decode_frame E None = Inr []"
  with assms(2) have "decode_frame E (snd (stream_read E (frame_no w))) = Inr []" by simp
  from capture_loop_retry [OF assms(1) this]
  show "capture_loop E [] w =
          capture_loop E [] (w\<lparr>trace := trace w @ [EvStreamRead], frame_no := Suc (frame_no w)\<rparr>)" .
next
  assume "decode_frame E None = Inl e"
  with assms(2) have "decode_frame E (snd (stream_read E (frame_no w))) = Inl e" by simp
  from capture_loop_raise [OF assms(1) this]
  show "capture_loop E [] w =
          Some (Inl e, w\<lparr>trace := trace w @ [EvStreamRead], frame_no := Suc (frame_no w)\<rparr>)" .
qed

theorem unavailable_frame_goes_to_decoder_witness:
  "capture_loop env_unavailable [] world0 =
     Some (Inl (PyExc ''TypeError''), world0\<lparr>trace := [EvStreamRead], frame_no := 1\<rparr>)
   \<and> capture_loop env_unavailable_lenient [] world0 =
       capture_loop env_unavailable_lenient [] (world0\<lparr>trace := [EvStreamRead], frame_no := 1\<rparr>)"
proof -
  have strict: "fails env_unavailable EvStreamRead = None"
    "stream_read env_unavailable (frame_no world0) = (False, None)"
    "decode_frame env_unavailable None = Inl (PyExc ''TypeError'')"
    by (simp_all add: env_unavailable_def env_xyz_def no_failure_def read_unavailable_first_def
          decode_frame_def decode_strict_def world0_def)
  have lenient: "fails env_unavailable_lenient EvStreamRead = None"
    "stream_read env_unavailable_lenient (frame_no world0) = (False, None)"
    "decode_frame env_unavailable_lenient None = Inr []"
    by (simp_all add: env_unavailable_lenient_def env_xyz_def no_failure_def
          read_unavailable_first_def decode_frame_def decode_xyz_def world0_def)
  from unavailable_frame_goes_to_decoder [OF strict(1,2), of "PyExc ''TypeError''"] strict(3)
       unavailable_frame_goes_to_decoder [OF lenient(1,2), of "PyExc ''TypeError''"] lenient(3)
  show ?thesis by (simp add: world0_def)
qed

text \<open>
  C6, as stated, fails: the first read reports no frame, the decoder raises
  \<^verbatim>\<open>TypeError\<close> on \<^verbatim>\<open>None\<close>, and the capture ends with that exception after one read.
\<close>

theorem unavailable_frame_fails_scan:
  "stream_read env_unavailable (frame_no world0) = (False, None)
   \<and> capture_data env_unavailable scanner0 world0 =
       Some (Inl (PyExc ''TypeError''),
             world0\<lparr>trace := [EvVideoCapture 0, EvStreamRead], frame_no := 1\<rparr>)"
proof -
  let ?w0 = "log (EvVideoCapture 0) world0"
  have "capture_loop env_unavailable [] ?w0 =
          Some (Inl (PyExc ''TypeError''),
                ?w0\<lparr>trace := trace ?w0 @ [EvStreamRead], frame_no := Suc (frame_no ?w0)\<rparr>)"
    by (rule capture_loop_raise)
       (simp_all add: env_unavailable_def env_xyz_def no_failure_def read_unavailable_first_def
          decode_frame_def decode_strict_def world0_def log_def)
  then show ?thesis
    by (simp add: capture_data_def call_def scanner0_def)
       (simp add: env_unavailable_def env_xyz_def no_failure_def read_unavailable_first_def
          world0_def log_def)
qed

text \<open>
  C7. Whatever the clipboard holds and whatever the libraries answer, the run of the
  generate entry point starts by handing to the QR encoder the context manager object
  returned by \<^verbatim>\<open>self.clipboard()\<close>, which is not the text of the clipboard, and makes no
  clipboard call at all, before or after.
\<close>

theorem make_qrcode_renders_context_manager:
  "(\<exists>rest. trace (snd (make_qrcode_from_clipboard E w))
              = trace w @ EvCreate PyContextManager PNG (TMP E) 8 # rest
           \<and> filter is_clipboard_call rest = [])
   \<and> clip (snd (make_qrcode_from_clipboard E w)) = clip w
   \<and> PyContextManager \<noteq> PyStr (clip w)"
proof -
  obtain r1 w1 where ex: "export E clipboard PNG w = (r1, w1)"
    by (cases "export E clipboard PNG w")
  have t1: "trace w1 = trace w @ [EvCreate PyContextManager PNG (TMP E) 8]"
    using export_trace [of E clipboard PNG w] ex by (simp add: clipboard_def)
  have c1: "clip w1 = clip w"
    using ex by (auto simp: export_def log_def split: sum.splits)
  show ?thesis
  proof (cases r1)
    case (Inl e)
    with ex have "make_qrcode_from_clipboard E w = (Inl e, w1)"
      by (simp add: make_qrcode_from_clipboard_def then_io_def bind_io_def)
    with t1 c1 show ?thesis by simp
  next
    case (Inr u)
    obtain r2 w2 where o2: "open_file E w1 = (r2, w2)"
      by (cases "open_file E w1")
    from Inr ex o2 have "snd (make_qrcode_from_clipboard E w) = w2"
      by (cases r2)
         (simp_all add: make_qrcode_from_clipboard_def then_io_def bind_io_def getattr_cleanup)
    with open_file_effect [OF o2] t1 c1 show ?thesis by auto
  qed
qed

theorem make_qrcode_renders_context_manager_witness:
  "clip world0 = ''hello''
   \<and> make_qrcode_from_clipboard env_xyz world0 =
       (Inl (PyExc ''AttributeError''),
        \<lparr>trace = [EvCreate PyContextManager PNG ''tmp'' 8], clip = ''hello'',
         frame_no = 0, fs = Map.empty\<rparr>)
   \<and> PyContextManager \<noteq> PyStr (clip world0)"
  using make_qrcode_renders_context_manager [of env_xyz world0] make_qrcode_run
  by (simp add: world0_def)

text \<open>
  C8, as the code has it. Every export stages its image at \<^verbatim>\<open>QRFile.TMP\<close>, the one path
  computed when the class is defined; all exports share it, and of two exports that both
  render, the second overwrites what the first staged: the files are then as if the first
  export had not been made.
\<close>

theorem export_stages_at_TMP:
  "staging_paths (trace (snd (export E d t w))) = staging_paths (trace w) @ [TMP E]
   \<and> (create_qr E d1 (ImageType_value t1) 8 = Inr img1
        \<and> create_qr E d2 (ImageType_value t2) 8 = Inr img2 \<longrightarrow>
      fs (snd (export E d1 t1 w)) (TMP E) = Some img1
      \<and> fs (snd (export E d2 t2 (snd (export E d1 t1 w)))) = (fs w)(TMP E \<mapsto> img2)
      \<and> staging_paths (trace (snd (export E d2 t2 (snd (export E d1 t1 w)))))
          = staging_paths (trace w) @ [TMP E, TMP E])"
proof (intro conjI impI)
  show "staging_paths (trace (snd (export E d t w))) = staging_paths (trace w) @ [TMP E]"
    by (simp add: export_trace staging_paths_append)
next
  assume both: "create_qr E d1 (ImageType_value t1) 8 = Inr img1
        \<and> create_qr E d2 (ImageType_value t2) 8 = Inr img2"
  let ?w1 = "snd (export E d1 t1 w)"
  have one: "export E d1 t1 w =
               (Inr (), (log (EvCreate d1 t1 (TMP E) 8) w)\<lparr>fs := (fs w)(TMP E \<mapsto> img1)\<rparr>)"
    using both by (intro export_renders) simp
  have two: "export E d2 t2 ?w1 =
               (Inr (), (log (EvCreate d2 t2 (TMP E) 8) ?w1)\<lparr>fs := (fs ?w1)(TMP E \<mapsto> img2)\<rparr>)"
    using both by (intro export_renders) simp
  show "fs ?w1 (TMP E) = Some img1"
    by (simp add: one)
  show "fs (snd (export E d2 t2 ?w1)) = (fs w)(TMP E \<mapsto> img2)"
    by (simp add: two) (simp add: one)
  show "staging_paths (trace (snd (export E d2 t2 ?w1))) = staging_paths (trace w) @ [TMP E, TMP E]"
    by (simp add: export_trace staging_paths_append)
qed

theorem export_stages_at_TMP_witness:
  "staging_paths (trace (snd (export env_xyz (PyStr ''hello'') SVG world_staged))) = [''tmp'', ''tmp'']
   \<and> fs world_staged ''tmp'' = Some ''png:hello''
   \<and> fs (snd (export env_xyz (PyStr ''bye'') SVG world_staged)) = [''tmp'' \<mapsto> ''svg:bye'']"
proof -
  have r: "create_qr env_xyz (PyStr ''hello'') (ImageType_value PNG) 8 = Inr ''png:hello''
           \<and> create_qr env_xyz (PyStr ''bye'') (ImageType_value SVG) 8 = Inr ''svg:bye''"
    by (simp add: env_xyz_def render_text_def ImageType_value_def)
  have tmp: "TMP env_xyz = ''tmp''"
    by (simp add: env_xyz_def)
  note a = export_stages_at_TMP [THEN conjunct1, of env_xyz "PyStr ''hello''" SVG world_staged]
  note b = export_stages_at_TMP [where w = world0, THEN conjunct2, THEN mp, OF r]
  from a have "staging_paths (trace (snd (export env_xyz (PyStr ''hello'') SVG world_staged)))
                 = [''tmp'', ''tmp'']"
    by (simp add: world_staged_eq tmp)
  moreover from b have "fs world_staged ''tmp'' = Some ''png:hello''"
    by (simp add: world_staged_def tmp)
  moreover from b have "fs (snd (export env_xyz (PyStr ''bye'') SVG world_staged))
                          = [''tmp'' \<mapsto> ''svg:bye'']"
    by (simp add: world_staged_def tmp world0_def)
  ultimately show ?thesis by simp
qed

text \<open>
  C8, as stated, fails: two exports in a row stage at the same path, and after the second
  the file there holds the second image only.
\<close>

theorem two_exports_share_staging_path:
  "staging_paths (trace (snd (then_io (export env_xyz (PyStr ''a'') PNG)
                                        (export env_xyz (PyStr ''b'') SVG) world0)))
     = [''tmp'', ''tmp'']
   \<and> \<not> distinct (staging_paths (trace (snd (then_io (export env_xyz (PyStr ''a'') PNG)
                                                      (export env_xyz (PyStr ''b'') SVG) world0))))
   \<and> fs (snd (export env_xyz (PyStr ''a'') PNG world0)) = [''tmp'' \<mapsto> ''png:a'']
   \<and> fs (snd (then_io (export env_xyz (PyStr ''a'') PNG)
                        (export env_xyz (PyStr ''b'') SVG) world0)) = [''tmp'' \<mapsto> ''svg:b'']"
  by (simp add: then_io_def bind_io_def export_def log_def env_xyz_def render_text_def
        ImageType_value_def world0_def)

text \<open>
  C9, as the code has it. \<^verbatim>\<open>cleanup_file_data\<close> keeps no record of having run and raises
  no exception of its own: when a call of it raises, the exception is the one its library
  call raised, \<^verbatim>\<open>shutil.move\<close> for a commit, \<^verbatim>\<open>os.remove\<close> for a discard (which is
  \<^verbatim>\<open>FileNotFoundError\<close> when there is no staged file). So after a discard that succeeded,
  a second discard fails with \<^verbatim>\<open>FileNotFoundError\<close>, the staged file being gone, and not
  with \<^verbatim>\<open>DoubleFinalizeError\<close>.
\<close>

theorem second_discard_raises_file_not_found:
  "(\<not> truthy s1 \<and> \<not> truthy s2 \<and> fst (cleanup_file_data E s1 w) = Inr () \<longrightarrow>
      fst (cleanup_file_data E s2 (snd (cleanup_file_data E s1 w)))
        = Inl (PyExc ''FileNotFoundError''))
   \<and> (fst (cleanup_file_data E s w) = Inl e \<longrightarrow>
        (truthy s \<and> shutil_move E (fs w) (TMP E) (the s) = Inl e)
        \<or> (\<not> truthy s \<and> fs w (TMP E) = None \<and> e = PyExc ''FileNotFoundError'')
        \<or> (\<not> truthy s \<and> fails E (EvRemove (TMP E)) = Some e))"
proof (intro conjI impI)
  assume a: "\<not> truthy s1 \<and> \<not> truthy s2 \<and> fst (cleanup_file_data E s1 w) = Inr ()"
  then have "fs (snd (cleanup_file_data E s1 w)) (TMP E) = None"
    by (intro discard_takes_file) simp_all
  with a show "fst (cleanup_file_data E s2 (snd (cleanup_file_data E s1 w)))
                 = Inl (PyExc ''FileNotFoundError'')"
    by (intro discard_needs_file) simp_all
next
  assume "fst (cleanup_file_data E s w) = Inl e"
  then show "(truthy s \<and> shutil_move E (fs w) (TMP E) (the s) = Inl e)
        \<or> (\<not> truthy s \<and> fs w (TMP E) = None \<and> e = PyExc ''FileNotFoundError'')
        \<or> (\<not> truthy s \<and> fails E (EvRemove (TMP E)) = Some e)"
    by (auto simp: cleanup_file_data_def move_def remove_def FileNotFoundError_def
             split: if_splits sum.splits option.splits)
qed

theorem second_discard_raises_file_not_found_witness:
  "fst (cleanup_file_data env_xyz (Some []) world_staged) = Inr ()
   \<and> fst (cleanup_file_data env_xyz None
            (snd (cleanup_file_data env_xyz (Some []) world_staged)))
       = Inl (PyExc ''FileNotFoundError'')"
proof -
  have first: "fst (cleanup_file_data env_xyz (Some []) world_staged) = Inr ()"
    by (simp add: cleanup_file_data_def remove_def world_staged_eq env_xyz_def no_failure_def)
  from first second_discard_raises_file_not_found [of "Some []" None env_xyz world_staged]
  show ?thesis by simp
qed

text \<open>
  C9, as stated, fails: a staged image is discarded, and the second discard ends with
  \<^verbatim>\<open>FileNotFoundError\<close>, which is not \<^verbatim>\<open>DoubleFinalizeError\<close>.
\<close>

theorem second_discard_is_not_double_finalize_error:
  "fst (cleanup_file_data env_xyz None world_staged) = Inr ()
   \<and> fst (cleanup_file_data env_xyz None (snd (cleanup_file_data env_xyz None world_staged)))
       = Inl (PyExc ''FileNotFoundError'')
   \<and> fst (cleanup_file_data env_xyz None (snd (cleanup_file_data env_xyz None world_staged)))
       \<noteq> Inl (PyExc ''DoubleFinalizeError'')"
  by (simp add: cleanup_file_data_def remove_def world_staged_eq env_xyz_def no_failure_def
        log_def FileNotFoundError_def)

text \<open>
  C10. When the first non-empty list the decoder returns starts with the empty text, the
  loop ends at that frame and the constructor returns normally with \<open>data\<close> set to the
  empty text; all it has done is to open the stream and read frames, so no clipboard call
  is made and the clipboard keeps its content: the publish statement runs only for a
  non-empty text.
\<close>

theorem empty_payload_is_not_published:
  assumes "fails E (EvVideoCapture dev) = None"
    and "fails E EvStreamRead = None"
    and "\<forall>i<n. decode_frame E (snd (stream_read E (frame_no w + i))) = Inr []"
    and "decode_frame E (snd (stream_read E (frame_no w + n))) = Inr ([] # xs)"
  shows "WindowsQrScanner_init E dev path w =
           Some (Inr \<lparr>capture_device = dev,
                      filepath = (if truthy path then the path else downloads E),
                      data = Some []\<rparr>,
                 w\<lparr>trace := trace w @ EvVideoCapture dev # replicate (Suc n) EvStreamRead,
                   frame_no := frame_no w + Suc n\<rparr>)"
  using WindowsQrScanner_init_run [OF assms, of path] by simp

theorem empty_payload_is_not_published_witness:
  "WindowsQrScanner_init env_empty_text 0 None world0 =
     Some (Inr \<lparr>capture_device = 0, filepath = ''Downloads'', data = Some []\<rparr>,
           \<lparr>trace = [EvVideoCapture 0, EvStreamRead, EvStreamRead, EvStreamRead],
            clip = ''hello'', frame_no = 3, fs = Map.empty\<rparr>)
   \<and> filter is_clipboard_call [EvVideoCapture 0, EvStreamRead, EvStreamRead, EvStreamRead] = []"
proof -
  have "WindowsQrScanner_init env_empty_text 0 None world0 =
          Some (Inr \<lparr>capture_device = 0,
                     filepath = (if truthy None then the None else downloads env_empty_text),
                     data = Some []\<rparr>,
                world0\<lparr>trace := trace world0 @ EvVideoCapture 0 # replicate (Suc 2) EvStreamRead,
                       frame_no := frame_no world0 + Suc 2\<rparr>)"
    by (rule empty_payload_is_not_published [where xs = "[]"])
       (simp_all add: frames_empty_text world0_def,
        simp_all add: env_empty_text_def env_xyz_def no_failure_def)
  then show ?thesis
    by (simp add: replicate_3 world0_def env_empty_text_def env_xyz_def)
qed

end
